theory Spec2Isabelle
  imports Main "HOL-Library.Sublist"
begin

section \<open>Python values, dictionaries and errors\<close>

text \<open>
  The connector is dynamically typed Python. Column values and configuration values
  are scalars (\<open>None\<close>, booleans, integers, strings); a dictionary is an association
  list in insertion order, which is the order \<open>dict.items()\<close> iterates in.
  A character of a string is a code point below 256, so the model covers Latin-1
  text; a string with a code point beyond is outside it.
\<close>

datatype pyval = PNone | PBool bool | PInt int | PStr string

type_synonym pydict = "(string \<times> pyval) list"

text \<open>Python's truth value of an object, as \<open>if x\<close>, \<open>not x\<close> and \<open>x or y\<close> use it.\<close>

fun truthy :: "pyval \<Rightarrow> bool" where
  "truthy PNone = False"
| "truthy (PBool b) = b"
| "truthy (PInt n) = (n \<noteq> 0)"
| "truthy (PStr s) = (s \<noteq> [])"

text \<open>\<open>a or b\<close> evaluates to \<open>a\<close> when \<open>a\<close> is true and to \<open>b\<close> otherwise.\<close>

definition py_or :: "pyval \<Rightarrow> pyval \<Rightarrow> pyval" where
  "py_or a b = (if truthy a then a else b)"

text \<open>A dictionary is true when it is not empty.\<close>

definition dict_truthy :: "pydict \<Rightarrow> bool" where
  "dict_truthy d = (d \<noteq> [])"

text \<open>
  The exceptions the connector can raise. \<open>MySQLClientError\<close> is the connector's own
  error class (\<open>beam_mysql.connector.errors\<close>); \<open>MySQLConnectorError\<close> is the driver's
  \<open>mysql.connector.errors.Error\<close>; the others are Python's built-in errors. Each
  carries its message, or the name the interpreter complains about.
\<close>

datatype error =
    MySQLClientError string
  | MySQLConnectorError string
  | TypeError string
  | AttributeError string
  | KeyError string

subsection \<open>String operations\<close>

text \<open>
  \<open>str.lstrip()\<close> removes leading white space. Below 256 the white space characters
  are the code points 9 to 13, 28 to 32, 133 (next line) and 160 (no-break space).
\<close>

definition is_space :: "char \<Rightarrow> bool" where
  "is_space c =
     (let n = (of_char c :: nat)
      in (9 \<le> n \<and> n \<le> 13) \<or> (28 \<le> n \<and> n \<le> 32) \<or> n = 133 \<or> n = 160)"

definition lstrip :: "string \<Rightarrow> string" where
  "lstrip s = dropWhile is_space s"

text \<open>
  \<open>str.lower()\<close>. Below 256 the upper-case letters are the code points 65 to 90 and
  192 to 222 without 215 (the multiplication sign); each has its lower-case letter 32
  further on.
\<close>

definition lower_char :: "char \<Rightarrow> char" where
  "lower_char c =
     (let n = (of_char c :: nat)
      in if (65 \<le> n \<and> n \<le> 90) \<or> (192 \<le> n \<and> n \<le> 222 \<and> n \<noteq> 215)
         then char_of (n + 32) else c)"

definition lower :: "string \<Rightarrow> string" where
  "lower s = map lower_char s"

text \<open>\<open>sep.join(xs)\<close>.\<close>

fun join :: "string \<Rightarrow> string list \<Rightarrow> string" where
  "join sep [] = []"
| "join sep [x] = x"
| "join sep (x # y # ys) = x @ sep @ join sep (y # ys)"

text \<open>Decimal digits of a natural number, and \<open>str(v)\<close> as an f-string formats a scalar.\<close>

fun digits :: "nat \<Rightarrow> string" where
  "digits n = (if n < 10 then [char_of (48 + n)] else digits (n div 10) @ [char_of (48 + n mod 10)])"

declare digits.simps [simp del]

fun format_val :: "pyval \<Rightarrow> string" where
  "format_val PNone = ''None''"
| "format_val (PBool b) = (if b then ''True'' else ''False'')"
| "format_val (PInt i) = (if i < 0 then ''-'' @ digits (nat (- i)) else digits (nat i))"
| "format_val (PStr s) = s"

text \<open>\<open>d[k]\<close> raises \<open>KeyError\<close> when the key is missing.\<close>

definition getitem :: "pydict \<Rightarrow> string \<Rightarrow> error + pyval" where
  "getitem d k = (case map_of d k of None \<Rightarrow> Inl (KeyError k) | Some v \<Rightarrow> Inr v)"

subsection \<open>Calls with positional arguments\<close>

text \<open>
  What a call site passes: a scalar, a dictionary, the batch of value lists, or the
  splitter object of \<open>ReadFromMySQL\<close>.
\<close>

datatype argument = Val pyval | Dict pydict | Batch "pyval list list" | Splitter

text \<open>
  Binding the positional arguments of a call to the parameters of a \<open>def\<close> that has
  neither defaults nor \<open>*args\<close> (\<open>self\<close> left out on both sides): any other number of
  arguments raises \<open>TypeError\<close>, before the body runs.
\<close>

definition bind_positional :: "string \<Rightarrow> string list \<Rightarrow> argument list \<Rightarrow> error + (string \<times> argument) list" where
  "bind_positional fname params args =
     (if length args = length params then Inr (zip params args) else Inl (TypeError fname))"

section \<open>The client (client.py)\<close>

definition SELECT_STATEMENT :: string where
  "SELECT_STATEMENT = ''SELECT''"

definition INSERT_STATEMENT :: string where
  "INSERT_STATEMENT = ''INSERT''"

text \<open>
  The database driver (\<open>mysql.connector\<close>) is outside the repository. It is a
  parameter: whether \<open>connect\<close> raises, what \<open>execute\<close> does with a statement (it raises,
  or it gives a result set whose fetching may raise after the rows), and whether
  \<open>commit\<close> and \<open>rollback\<close> raise. \<open>cursor\<close> and \<open>close\<close> are taken to succeed. The
  calls made to the driver are logged in order.
\<close>

record 'r driver =
  connect_error :: "string option"
  execute_result :: "string \<Rightarrow> string + ('r list \<times> string option)"
  commit_error :: "string option"
  rollback_error :: "string option"

datatype db_event =
    Connect pydict
  | Cursor
  | Execute string
  | Fetchall
  | Commit
  | Rollback
  | CursorClose
  | Close

record MySQLClient =
  config :: pydict

definition required_keys :: "string set" where
  "required_keys = {''host'', ''port'', ''database'', ''user'', ''password''}"

text \<open>
  \<open>_validate_config\<close>: the key view of the dictionary is compared with the set. The
  message goes on with the two key sets, in an order Python does not fix; it is cut
  after its first sentence.
\<close>

definition validate_config :: "pydict \<Rightarrow> error + unit" where
  "validate_config cfg =
     (if \<not> (set (map fst cfg) = required_keys)
      then Inl (MySQLClientError ''Config is not satisfied.'')
      else Inr ())"

text \<open>The dataclass constructor: it stores the field, then \<open>__post_init__\<close> validates.\<close>

definition MySQLClient_init :: "pydict \<Rightarrow> error + MySQLClient" where
  "MySQLClient_init cfg =
     (case validate_config cfg of
        Inl e \<Rightarrow> Inl e
      | Inr _ \<Rightarrow> Inr \<lparr>config = cfg\<rparr>)"

text \<open>\<open>_validate_query\<close>: the loop over the expected statements, on the stripped query.\<close>

fun validate_statements :: "string \<Rightarrow> string list \<Rightarrow> error + unit" where
  "validate_statements query [] = Inr ()"
| "validate_statements query (statement # statements) =
     (if statement \<noteq> [] \<and> \<not> prefix (lower statement) (lower query)
      then Inl (MySQLClientError
             (''Query expected to start with '' @ statement @ '' statement. Query: '' @ query))
      else validate_statements query statements)"

definition validate_query :: "string \<Rightarrow> string list \<Rightarrow> error + unit" where
  "validate_query query statements = validate_statements (lstrip query) statements"

text \<open>
  A row of the \<open>EXPLAIN\<close> result, as the dictionary cursor gives it: the columns the
  estimator reads.
\<close>

record planner_row =
  select_type :: string
  rows :: int

text \<open>
  The loop of \<open>rough_counts_estimator\<close> over the planner rows. Its condition is
  \<open>record["select_type"] == "PRIMARY" or "SIMPLE"\<close>: the comparison, \<open>or\<close> the string.
\<close>

fun estimate_loop :: "planner_row list \<Rightarrow> int \<Rightarrow> int" where
  "estimate_loop [] total_number = total_number"
| "estimate_loop (record # records) total_number =
     (if truthy (py_or (PBool (select_type record = ''PRIMARY'')) (PStr ''SIMPLE''))
      then estimate_loop records (rows record)
      else estimate_loop records total_number)"

definition rough_counts_estimator ::
  "MySQLClient \<Rightarrow> string \<Rightarrow> planner_row driver \<Rightarrow> (error + int) \<times> db_event list" where
  "rough_counts_estimator self query drv =
     (case validate_query query [SELECT_STATEMENT] of
        Inl e \<Rightarrow> (Inl e, [])
      | Inr _ \<Rightarrow>
          (let count_query = ''EXPLAIN SELECT * FROM ('' @ query @ '') as subq'' in
           case connect_error drv of
             Some e \<Rightarrow>
               (Inl (MySQLClientError (''Failed to connect mysql, Raise exception: '' @ e)),
                [Connect (config self)])
           | None \<Rightarrow>
               (case execute_result drv count_query of
                  Inl e \<Rightarrow>
                    (Inl (MySQLClientError
                       (''Failed to execute query: '' @ count_query @ '', Raise exception: '' @ e)),
                     [Connect (config self), Cursor, Execute count_query, Close])
                | Inr (records, Some e) \<Rightarrow>
                    (Inl (MySQLClientError
                       (''Failed to execute query: '' @ count_query @ '', Raise exception: '' @ e)),
                     [Connect (config self), Cursor, Execute count_query, Fetchall, Close])
                | Inr (records, None) \<Rightarrow>
                    (let total_number = estimate_loop records 0 in
                     if total_number \<le> 0
                     then (Inl (MySQLConnectorError
                             (''Failed to estimate total number of records. Query: '' @ count_query)),
                           [Connect (config self), Cursor, Execute count_query, Fetchall,
                            CursorClose, Close])
                     else (Inr total_number,
                           [Connect (config self), Cursor, Execute count_query, Fetchall,
                            CursorClose, Close])))))"

text \<open>
  The \<open>except\<close> block of \<open>record_loader\<close>, entered with the driver error \<open>e\<close>: it rolls
  back and raises the client error. A rollback that raises leaves the block with the
  driver's own error.
\<close>

definition loader_handler :: "string \<Rightarrow> string \<Rightarrow> 'r driver \<Rightarrow> error" where
  "loader_handler query e drv =
     (case rollback_error drv of
        Some e' \<Rightarrow> MySQLConnectorError e'
      | None \<Rightarrow>
          MySQLClientError (''Failed to execute query: '' @ query @ '', Raise exception: '' @ e))"

text \<open>
  \<open>record_loader(self, query)\<close>: execute and commit; on a driver error roll back and
  raise the client error. The connection is closed when the \<open>with\<close> block is left.
\<close>

definition record_loader ::
  "MySQLClient \<Rightarrow> string \<Rightarrow> 'r driver \<Rightarrow> (error + unit) \<times> db_event list" where
  "record_loader self query drv =
     (case validate_query query [INSERT_STATEMENT] of
        Inl e \<Rightarrow> (Inl e, [])
      | Inr _ \<Rightarrow>
          (case connect_error drv of
             Some e \<Rightarrow>
               (Inl (MySQLClientError (''Failed to connect mysql, Raise exception: '' @ e)),
                [Connect (config self)])
           | None \<Rightarrow>
               (case execute_result drv query of
                  Inl e \<Rightarrow>
                    (Inl (loader_handler query e drv),
                     [Connect (config self), Cursor, Execute query, Rollback, Close])
                | Inr _ \<Rightarrow>
                    (case commit_error drv of
                       Some e \<Rightarrow>
                         (Inl (loader_handler query e drv),
                          [Connect (config self), Cursor, Execute query, Commit, Rollback, Close])
                     | None \<Rightarrow>
                         (Inr (),
                          [Connect (config self), Cursor, Execute query, Commit,
                           CursorClose, Close])))))"

text \<open>
  A call \<open>client.record_loader(...)\<close> with the arguments of the call site. The method
  has the one parameter \<open>query\<close>, on which \<open>_validate_query\<close> calls \<open>lstrip\<close>.
\<close>

definition call_record_loader ::
  "MySQLClient \<Rightarrow> argument list \<Rightarrow> 'r driver \<Rightarrow> (error + unit) \<times> db_event list" where
  "call_record_loader self args drv =
     (case bind_positional ''record_loader'' [''query''] args of
        Inl e \<Rightarrow> (Inl e, [])
      | Inr env \<Rightarrow>
          (case map_of env ''query'' of
             Some (Val (PStr query)) \<Rightarrow> record_loader self query drv
           | _ \<Rightarrow> (Inl (AttributeError ''lstrip''), [])))"

text \<open>
  \<open>record_generator\<close> is a generator over an unbuffered cursor. What it produces is
  the rows it yields, in the order of the result set, and the error it ends with when
  it raises (from the validation, the connection, the execution or a later fetch).
\<close>

type_synonym generator = "pydict list \<times> error option"

definition record_generator :: "MySQLClient \<Rightarrow> string \<Rightarrow> pydict driver \<Rightarrow> generator" where
  "record_generator self query drv =
     (case validate_query query [SELECT_STATEMENT] of
        Inl e \<Rightarrow> ([], Some e)
      | Inr _ \<Rightarrow>
          (case connect_error drv of
             Some e \<Rightarrow>
               ([], Some (MySQLClientError (''Failed to connect mysql, Raise exception: '' @ e)))
           | None \<Rightarrow>
               (case execute_result drv query of
                  Inl e \<Rightarrow>
                    ([], Some (MySQLClientError
                       (''Failed to execute query: '' @ query @ '', Raise exception: '' @ e)))
                | Inr (records, None) \<Rightarrow> (records, None)
                | Inr (records, Some e) \<Rightarrow>
                    (records, Some (MySQLClientError
                       (''Failed to execute query: '' @ query @ '', Raise exception: '' @ e))))))"

text \<open>
  \<open>next(record_generator, None)\<close>: the next row, \<open>None\<close> when the generator is
  exhausted, or the error it raises.
\<close>

fun gen_next :: "generator \<Rightarrow> error + (pydict option \<times> generator)" where
  "gen_next ([], None) = Inr (None, ([], None))"
| "gen_next ([], Some e) = Inl e"
| "gen_next (r # rs, err) = Inr (Some r, (rs, err))"

section \<open>The bounded source (source.py)\<close>

text \<open>
  The attributes of a \<open>MySQLSource\<close>. \<open>__init__\<close> stores what it is given, unchecked;
  \<open>_client\<close>, \<open>_counts\<close> and \<open>_chunk_size\<close> do not exist before \<open>_build_value\<close> has run.
\<close>

record MySQLSource =
  src_query :: argument
  src_config :: argument
  src_client :: "MySQLClient option"
  src_counts :: "int option"
  src_chunk_size :: "int option"

definition MySQLSource_init :: "argument \<Rightarrow> argument \<Rightarrow> MySQLSource" where
  "MySQLSource_init query cfg =
     \<lparr>src_query = query, src_config = cfg, src_client = None, src_counts = None,
      src_chunk_size = None\<rparr>"

text \<open>The constructor call \<open>MySQLSource(...)\<close>: \<open>__init__(self, query, config)\<close>.\<close>

definition call_MySQLSource :: "argument list \<Rightarrow> error + MySQLSource" where
  "call_MySQLSource args =
     (case bind_positional ''__init__'' [''query'', ''config''] args of
        Inl e \<Rightarrow> Inl e
      | Inr env \<Rightarrow>
          (case (map_of env ''query'', map_of env ''config'') of
             (Some query, Some cfg) \<Rightarrow> Inr (MySQLSource_init query cfg)
           | _ \<Rightarrow> Inl (TypeError ''__init__'')))"

text \<open>
  \<open>beam_mysql/connector/utils.py\<close> is not among the sources. Its two functions are
  parameters: \<open>get_runtime_value\<close> on a configuration value, and the composition
  \<open>cleanse_query(get_runtime_value(...))\<close> on the query. \<open>_build_value\<close> gives the
  source with its attributes set, or the exception raised on the way.
\<close>

record utils =
  get_runtime_value :: "pyval \<Rightarrow> pyval"
  runtime_query :: "argument \<Rightarrow> string"

definition build_value ::
  "utils \<Rightarrow> planner_row driver \<Rightarrow> MySQLSource \<Rightarrow> (error + MySQLSource) \<times> db_event list" where
  "build_value u drv self =
     (case src_config self of
        Dict cfg \<Rightarrow>
          (let cfg' = map (\<lambda>(k, v). (k, get_runtime_value u v)) cfg;
               query = runtime_query u (src_query self)
           in case MySQLClient_init cfg' of
                Inl e \<Rightarrow> (Inl e, [])
              | Inr client \<Rightarrow>
                  (case rough_counts_estimator client query drv of
                     (Inl e, log) \<Rightarrow> (Inl e, log)
                   | (Inr rough_counts, log) \<Rightarrow>
                       (Inr \<lparr>src_query = Val (PStr query), src_config = Dict cfg',
                             src_client = Some client, src_counts = Some rough_counts,
                             src_chunk_size = Some (rough_counts div 10000)\<rparr>, log)))
      | _ \<Rightarrow> (Inl (AttributeError ''items''), []))"

datatype SourceBundle =
  SourceBundle (weight: int) (source: MySQLSource) (start_position: int) (stop_position: int)

text \<open>
  The \<open>while\<close> loop of \<open>split\<close>, a generator: the bundles it yields while its condition
  is evaluated at most \<open>fuel\<close> times, and whether it has returned by then.
\<close>

fun split_loop ::
  "nat \<Rightarrow> int \<Rightarrow> MySQLSource \<Rightarrow> int \<Rightarrow> int \<Rightarrow> int \<Rightarrow> int \<Rightarrow> SourceBundle list \<times> bool" where
  "split_loop 0 desired_bundle_size self bundle_start bundle_stop stop chunk_size = ([], False)"
| "split_loop (Suc fuel) desired_bundle_size self bundle_start bundle_stop stop chunk_size =
     (if bundle_start < stop
      then (let (bundles, returned) =
                  split_loop fuel desired_bundle_size self bundle_stop (bundle_stop + chunk_size)
                    stop chunk_size
            in (SourceBundle desired_bundle_size self bundle_start bundle_stop # bundles, returned))
      else ([], True))"

definition split ::
  "nat \<Rightarrow> MySQLSource \<Rightarrow> int \<Rightarrow> int option \<Rightarrow> int option \<Rightarrow> error + (SourceBundle list \<times> bool)" where
  "split fuel self desired_bundle_size start stop =
     (let start_pos = (case start of None \<Rightarrow> 0 | Some s \<Rightarrow> s) in
      case (case stop of
              None \<Rightarrow> (case src_counts self of
                          None \<Rightarrow> Inl (AttributeError ''_counts'')
                        | Some c \<Rightarrow> Inr c)
            | Some s \<Rightarrow> Inr s) of
        Inl e \<Rightarrow> Inl e
      | Inr stop_pos \<Rightarrow>
          (case src_chunk_size self of
             None \<Rightarrow> Inl (AttributeError ''_chunk_size'')
           | Some chunk_size \<Rightarrow>
               Inr (split_loop fuel desired_bundle_size self start_pos chunk_size
                      stop_pos chunk_size)))"

text \<open>
  The range tracker is the runner's. \<open>read\<close> asks it for its bounds once and then for
  one claim per position; what \<open>try_claim\<close> answers at a position is a parameter, so
  that any shrinking of the range by a concurrent split is covered.
\<close>

record range_tracker =
  tracker_start :: int
  tracker_stop :: int
  try_claim :: "int \<Rightarrow> bool"

text \<open>What an invocation of \<open>read\<close> does, in order.\<close>

datatype event = TryClaim int bool | Yield pydict | Raise error

text \<open>The trailing \<open>while True\<close> loop of \<open>read\<close>.\<close>

function read_while :: "generator \<Rightarrow> event list" where
  "read_while g =
     (case gen_next g of
        Inl e \<Rightarrow> [Raise e]
      | Inr (None, g') \<Rightarrow> []
      | Inr (Some next_object, g') \<Rightarrow>
          (if dict_truthy next_object then Yield next_object # read_while g' else []))"
  by pat_completeness auto
termination
  by (relation "measure (\<lambda>g. length (fst g))") (auto elim: gen_next.elims)

declare read_while.simps [simp del]

text \<open>The \<open>for i in range(start, stop)\<close> loop of \<open>read\<close>, followed by the trailing loop.\<close>

function read_for :: "(int \<Rightarrow> bool) \<Rightarrow> int \<Rightarrow> int \<Rightarrow> generator \<Rightarrow> event list" where
  "read_for claim i stop g =
     (if i < stop
      then (case gen_next g of
              Inl e \<Rightarrow> [Raise e]
            | Inr (None, g') \<Rightarrow> []
            | Inr (Some next_object, g') \<Rightarrow>
                (if \<not> dict_truthy next_object then []
                 else if \<not> claim i then [TryClaim i False]
                 else TryClaim i True # Yield next_object # read_for claim (i + 1) stop g'))
      else read_while g)"
  by pat_completeness auto
termination
  by (relation "measure (\<lambda>(claim, i, stop, g). nat (stop - i))") auto

declare read_for.simps [simp del]

definition read :: "MySQLSource \<Rightarrow> range_tracker \<Rightarrow> pydict driver \<Rightarrow> event list" where
  "read self range_tracker drv =
     (case src_client self of
        None \<Rightarrow> [Raise (AttributeError ''_client'')]
      | Some client \<Rightarrow>
          (let g = (case src_query self of
                      Val (PStr query) \<Rightarrow> record_generator client query drv
                    | _ \<Rightarrow> ([], Some (AttributeError ''lstrip'')))
           in read_for (try_claim range_tracker) (tracker_start range_tracker)
                (tracker_stop range_tracker) g))"

section \<open>The transforms (io.py)\<close>

record ReadFromMySQL =
  r_query :: pyval
  r_host :: pyval
  r_database :: pyval
  r_user :: pyval
  r_password :: pyval
  r_port :: pyval

text \<open>
  \<open>ReadFromMySQL.expand\<close> builds the source for \<open>iobase.Read\<close>; the result stands for
  \<open>pcoll | iobase.Read(source)\<close>.
\<close>

definition expand :: "ReadFromMySQL \<Rightarrow> 'p \<Rightarrow> error + ('p \<times> MySQLSource)" where
  "expand self pcoll =
     (case call_MySQLSource
             [Val (r_query self), Val (r_host self), Val (r_database self), Val (r_user self),
              Val (r_password self), Val (r_port self), Splitter] of
        Inl e \<Rightarrow> Inl e
      | Inr src \<Rightarrow> Inr (pcoll, src))"

text \<open>
  The attributes of \<open>_WriteToMySQLFn\<close> that \<open>process\<close> and \<open>finish_bundle\<close> use, as
  \<open>start_bundle\<close> leaves them; \<open>query\<close> does not exist before the first \<open>process\<close>.
\<close>

record WriteToMySQLFn =
  w_config :: pydict
  w_table :: pyval
  w_batch_size :: int
  w_do_upsert :: bool
  w_client :: MySQLClient
  w_values_batch :: "pyval list list"
  w_query :: "string option"

text \<open>
  \<open>process\<close> and \<open>finish_bundle\<close> give the exception raised, if any, the attributes
  afterwards and the calls made to the driver.
\<close>

definition process ::
  "'r driver \<Rightarrow> WriteToMySQLFn \<Rightarrow> pydict \<Rightarrow> error option \<times> WriteToMySQLFn \<times> db_event list" where
  "process drv self element =
     (let columns = map fst element;
          vals = map snd element;
          column_str = join '', '' columns;
          value_str = ''%s'' @ concat (replicate (nat (int (length vals) - 1)) '',%s'')
      in case getitem (w_config self) ''database'' of
           Inl e \<Rightarrow> (Some e, self, [])
         | Inr database \<Rightarrow>
             (let insert_query =
                    ''INSERT INTO '' @ format_val database @ ''.'' @ format_val (w_table self)
                    @ '' ('' @ column_str @ '') VALUES ('' @ value_str @ '')'';
                  query =
                    (if w_do_upsert self
                     then insert_query @ '' ON DUPLICATE KEY UPDATE ''
                          @ join '', '' (map (\<lambda>column. column @ '' = VALUES('' @ column @ '')'') columns)
                          @ '';''
                     else insert_query);
                  self' = self\<lparr>w_query := Some query,
                                w_values_batch := w_values_batch self @ [vals]\<rparr>
              in if int (length (w_values_batch self')) \<ge> w_batch_size self'
                 then (case call_record_loader (w_client self')
                              [Val (PStr query), Batch (w_values_batch self')] drv of
                         (Inl e, log) \<Rightarrow> (Some e, self', log)
                       | (Inr _, log) \<Rightarrow> (None, self'\<lparr>w_values_batch := []\<rparr>, log))
                 else (None, self', [])))"

definition finish_bundle ::
  "'r driver \<Rightarrow> WriteToMySQLFn \<Rightarrow> error option \<times> WriteToMySQLFn \<times> db_event list" where
  "finish_bundle drv self =
     (if length (w_values_batch self) \<noteq> 0
      then (case w_query self of
              None \<Rightarrow> (Some (AttributeError ''query''), self, [])
            | Some query \<Rightarrow>
                (case call_record_loader (w_client self)
                        [Val (PStr query), Batch (w_values_batch self)] drv of
                   (Inl e, log) \<Rightarrow> (Some e, self, log)
                 | (Inr _, log) \<Rightarrow> (None, self\<lparr>w_values_batch := []\<rparr>, log)))
      else (None, self, []))"

section \<open>Specification functions and example inputs\<close>

text \<open>
  The property that every row of a trace is emitted directly after a granted claim of
  a position of the range \<open>[start, stop)\<close>.
\<close>

fun emits_only_claimed :: "int \<Rightarrow> int \<Rightarrow> event list \<Rightarrow> bool" where
  "emits_only_claimed start stop [] = True"
| "emits_only_claimed start stop (TryClaim i True # Yield r # es) =
     (start \<le> i \<and> i < stop \<and> emits_only_claimed start stop es)"
| "emits_only_claimed start stop (Yield r # es) = False"
| "emits_only_claimed start stop (e # es) = emits_only_claimed start stop es"

text \<open>
  What \<open>read\<close> does, in closed form. Of the first \<open>m\<close> positions from \<open>start\<close>,
  \<open>granted\<close> counts the leading ones whose claim is granted; \<open>claimed_part\<close> is the
  trace of \<open>k\<close> granted claims, each followed by its row.
\<close>

definition granted :: "(int \<Rightarrow> bool) \<Rightarrow> int \<Rightarrow> nat \<Rightarrow> nat" where
  "granted claim start m = length (takeWhile (\<lambda>j. claim (start + int j)) [0..<m])"

definition claimed_part :: "int \<Rightarrow> nat \<Rightarrow> pydict list \<Rightarrow> event list" where
  "claimed_part start k rs =
     concat (map (\<lambda>j. [TryClaim (start + int j) True, Yield (rs ! j)]) [0..<k])"

text \<open>
  The rows that count are those before the first empty one (\<open>live\<close>); \<open>m\<close> of them meet
  a position of the range. The first \<open>k\<close> are claimed and emitted. A refused claim
  comes next and ends the trace, if one of the \<open>m\<close> positions is refused. Otherwise the
  rest of the live rows is emitted with no claim, and the generator's error is raised
  when the rows run out.
\<close>

definition read_spec ::
  "(int \<Rightarrow> bool) \<Rightarrow> int \<Rightarrow> int \<Rightarrow> pydict list \<Rightarrow> error option \<Rightarrow> event list" where
  "read_spec claim start stop rs err =
     (let live = takeWhile dict_truthy rs;
          m = min (nat (stop - start)) (length live);
          k = granted claim start m
      in claimed_part start k live @
         (if k < m then [TryClaim (start + int k) False]
          else map Yield (drop k live) @
               (if length live = length rs
                then (case err of None \<Rightarrow> [] | Some e \<Rightarrow> [Raise e])
                else [])))"

definition example_config :: pydict where
  "example_config =
     [(''host'', PStr ''localhost''), (''database'', PStr ''shop''), (''user'', PStr ''beam''),
      (''password'', PStr ''secret''), (''port'', PInt 3306)]"

definition example_client :: MySQLClient where
  "example_client = \<lparr>config = example_config\<rparr>"

text \<open>A driver whose \<open>EXPLAIN\<close> gives the planner rows \<open>rs\<close>.\<close>

definition explain_driver :: "planner_row list \<Rightarrow> planner_row driver" where
  "explain_driver rs =
     \<lparr>connect_error = None, execute_result = (\<lambda>q. Inr (rs, None)), commit_error = None,
      rollback_error = None\<rparr>"

text \<open>A driver whose query gives the rows \<open>rs\<close>.\<close>

definition select_driver :: "pydict list \<Rightarrow> pydict driver" where
  "select_driver rs =
     \<lparr>connect_error = None, execute_result = (\<lambda>q. Inr (rs, None)), commit_error = None,
      rollback_error = None\<rparr>"

text \<open>A driver on which every statement fails.\<close>

definition failing_driver :: "unit driver" where
  "failing_driver =
     \<lparr>connect_error = None, execute_result = (\<lambda>q. Inl ''1062 Duplicate entry''),
      commit_error = None, rollback_error = None\<rparr>"

definition example_source :: MySQLSource where
  "example_source =
     \<lparr>src_query = Val (PStr ''SELECT * FROM t''), src_config = Dict example_config,
      src_client = Some example_client, src_counts = Some 3, src_chunk_size = Some 0\<rparr>"

definition example_rows :: "pydict list" where
  "example_rows = [[(''id'', PInt 1)], [(''id'', PInt 2)], [(''id'', PInt 3)]]"

definition example_writer :: WriteToMySQLFn where
  "example_writer =
     \<lparr>w_config = example_config, w_table = PStr ''users'', w_batch_size = 1, w_do_upsert = False,
      w_client = example_client, w_values_batch = [], w_query = None\<rparr>"

section \<open>Configuration validation\<close>

text \<open>
  Claim C9. For every configuration mapping, constructing \<open>MySQLClient\<close> succeeds if and
  only if the key set of the mapping is exactly \<open>{host, port, database, user, password}\<close>;
  with a missing or an extra key the construction fails with the configuration error.
\<close>

theorem config_validation:
  "((\<exists>client. MySQLClient_init cfg = Inr client) \<longleftrightarrow> set (map fst cfg) = required_keys)
   \<and> (set (map fst cfg) = required_keys \<longrightarrow> MySQLClient_init cfg = Inr \<lparr>config = cfg\<rparr>)
   \<and> (set (map fst cfg) \<noteq> required_keys \<longrightarrow>
        MySQLClient_init cfg = Inl (MySQLClientError ''Config is not satisfied.''))"
  by (simp add: MySQLClient_init_def validate_config_def)

lemma example_keys: "set (map fst example_config) = required_keys"
  by code_simp

lemma missing_key: "set (map fst (tl example_config)) \<noteq> required_keys"
  by code_simp

lemma extra_key: "set (map fst ((''charset'', PStr ''utf8'') # example_config)) \<noteq> required_keys"
  by code_simp

text \<open>The exact key set, the key set without \<open>host\<close>, and the key set with \<open>charset\<close> added.\<close>

theorem config_validation_witness:
  "MySQLClient_init example_config = Inr \<lparr>config = example_config\<rparr>
   \<and> MySQLClient_init (tl example_config) = Inl (MySQLClientError ''Config is not satisfied.'')
   \<and> MySQLClient_init ((''charset'', PStr ''utf8'') # example_config)
       = Inl (MySQLClientError ''Config is not satisfied.'')"
  using config_validation [of example_config] config_validation [of "tl example_config"]
    config_validation [of "(''charset'', PStr ''utf8'') # example_config"]
    example_keys missing_key extra_key
  by blast

lemma validated_database:
  assumes "validate_config cfg = Inr ()"
  shows "\<exists>db. getitem cfg ''database'' = Inr db"
proof -
  from assms have "set (map fst cfg) = required_keys"
    by (simp add: validate_config_def split: if_splits)
  then have "''database'' \<in> fst ` set cfg"
    by (simp add: required_keys_def)
  then obtain v where "map_of cfg ''database'' = Some v"
    by (metis map_of_eq_None_iff not_None_eq)
  then show ?thesis
    by (simp add: getitem_def)
qed

section \<open>The count estimator\<close>

lemma valid_select: "validate_query ''SELECT * FROM t'' [SELECT_STATEMENT] = Inr ()"
  by code_simp

text \<open>The condition of the loop holds for every planner row: the last row decides.\<close>

lemma estimate_loop_last:
  "estimate_loop records total_number
     = (if records = [] then total_number else rows (last records))"
  by (induction records arbitrary: total_number) (auto simp: py_or_def)

text \<open>
  Claim C2. The estimator is to take the \<open>rows\<close> value of a \<open>PRIMARY\<close> or \<open>SIMPLE\<close>
  planner row and never that of a \<open>DERIVED\<close> row: 42 for the rows \<open>DERIVED 500\<close> and
  \<open>PRIMARY 42\<close> in either order. The code returns 500 when the \<open>DERIVED\<close> row comes last.
\<close>

theorem estimator_takes_derived_row:
  "fst (rough_counts_estimator client ''SELECT * FROM t''
          (explain_driver [\<lparr>select_type = ''PRIMARY'', rows = 42\<rparr>,
                           \<lparr>select_type = ''DERIVED'', rows = 500\<rparr>]))
     = Inr 500"
  by (simp add: rough_counts_estimator_def valid_select explain_driver_def py_or_def Let_def)

text \<open>
  Whenever the \<open>EXPLAIN\<close> succeeds and the total is not positive, the error raised is
  the driver's.
\<close>

lemma estimator_nonpositive_total:
  assumes "validate_query query [SELECT_STATEMENT] = Inr ()"
    and "connect_error drv = None"
    and "execute_result drv (''EXPLAIN SELECT * FROM ('' @ query @ '') as subq'') = Inr (records, None)"
    and "estimate_loop records 0 \<le> 0"
  shows "fst (rough_counts_estimator client query drv)
           = Inl (MySQLConnectorError
               (''Failed to estimate total number of records. Query: ''
                @ ''EXPLAIN SELECT * FROM ('' @ query @ '') as subq''))"
  using assms by (simp add: rough_counts_estimator_def Let_def)

text \<open>
  Claim C6. A planner total of at most 0 is to make the estimator raise the client error
  \<open>MySQLClientError\<close>. The code raises the driver's error class instead.
\<close>

theorem estimator_raises_driver_error:
  "fst (rough_counts_estimator client ''SELECT * FROM t''
          (explain_driver [\<lparr>select_type = ''PRIMARY'', rows = 0\<rparr>]))
     = Inl (MySQLConnectorError
         ''Failed to estimate total number of records. Query: EXPLAIN SELECT * FROM (SELECT * FROM t) as subq'')"
  by (simp add: rough_counts_estimator_def valid_select explain_driver_def py_or_def Let_def)

section \<open>The read transform\<close>

text \<open>
  Claim C8. For every \<open>ReadFromMySQL\<close> instance, \<open>expand\<close> fails: it calls \<open>MySQLSource\<close>
  with seven positional arguments, and \<open>MySQLSource.__init__\<close> accepts \<open>query\<close> and
  \<open>config\<close> only, so the transform never builds its bounded source.
\<close>

theorem expand_fails: "expand self pcoll = Inl (TypeError ''__init__'')"
  by (simp add: expand_def call_MySQLSource_def bind_positional_def)

section \<open>The split planner\<close>

text \<open>With a chunk size of 0 every bundle is \<open>[0, 0)\<close> and the loop does not return.\<close>

lemma split_loop_zero_chunk:
  "0 < stop \<Longrightarrow>
   split_loop fuel w self 0 0 stop 0 = (replicate fuel (SourceBundle w self 0 0), False)"
  by (induction fuel) auto

lemma build_value_chunk_size:
  assumes "build_value u drv self = (Inr built, log)"
  shows "\<exists>total. 0 < total \<and> src_counts built = Some total
           \<and> src_chunk_size built = Some (total div 10000)"
  using assms
  by (auto simp: build_value_def rough_counts_estimator_def Let_def
      split: argument.splits sum.splits prod.splits option.splits if_splits)

text \<open>
  With a positive chunk size the loop returns: after \<open>\<lceil>(stop - start) / c\<rceil>\<close> bundles,
  each starting where the one before stops.
\<close>

lemma split_loop_returns:
  assumes "0 < c"
  shows "nat ((stop - bs + c - 1) div c) < fuel \<Longrightarrow>
         split_loop fuel w self bs (bs + c) stop c
           = (map (\<lambda>k. SourceBundle w self (bs + int k * c) (bs + int k * c + c))
                [0..<nat ((stop - bs + c - 1) div c)], True)"
proof (induction fuel arbitrary: bs)
  case 0
  then show ?case by simp
next
  case (Suc fuel)
  show ?case
  proof (cases "bs < stop")
    case False
    then have "stop - bs + c - 1 \<le> c - 1" by simp
    then have "(stop - bs + c - 1) div c \<le> (c - 1) div c"
      using assms by (rule zdiv_mono1)
    moreover have "(c - 1) div c = 0"
      using assms by (simp add: div_pos_pos_trivial)
    ultimately have "(stop - bs + c - 1) div c \<le> 0"
      by simp
    with False show ?thesis by simp
  next
    case True
    let ?n = "nat ((stop - bs + c - 1) div c)"
    let ?n' = "nat ((stop - (bs + c) + c - 1) div c)"
    have "stop - bs + c - 1 = (stop - (bs + c) + c - 1) + c" by simp
    then have "(stop - bs + c - 1) div c = (stop - (bs + c) + c - 1) div c + 1"
      using assms by (metis div_add_self2 less_irrefl)
    moreover have "0 \<le> (stop - (bs + c) + c - 1) div c"
      using True assms by (simp add: pos_imp_zdiv_nonneg_iff)
    ultimately have n: "?n = Suc ?n'"
      by simp
    with Suc.prems have "?n' < fuel" by simp
    then have IH: "split_loop fuel w self (bs + c) (bs + c + c) stop c
           = (map (\<lambda>k. SourceBundle w self (bs + c + int k * c) (bs + c + int k * c + c))
                [0..<?n'], True)"
      by (rule Suc.IH)
    have "[0..<Suc ?n'] = 0 # map Suc [0..<?n']"
      by (simp add: upt_conv_Cons map_Suc_upt del: upt_Suc)
    then have "map (\<lambda>k. SourceBundle w self (bs + int k * c) (bs + int k * c + c)) [0..<?n]
        = SourceBundle w self bs (bs + c)
          # map (\<lambda>k. SourceBundle w self (bs + c + int k * c) (bs + c + int k * c + c)) [0..<?n']"
      unfolding n by (simp add: comp_def algebra_simps del: upt_Suc)
    with True IH show ?thesis
      by simp
  qed
qed

text \<open>
  The chunk size is \<open>T div 10000\<close>: \<open>split\<close> returns for every total from 10000 on,
  with bundles that reach the total, and for no smaller total.
\<close>

lemma split_below_10000_never_returns:
  assumes "1 \<le> T" and "T < 10000"
  shows "split fuel (self\<lparr>src_counts := Some T, src_chunk_size := Some (T div 10000)\<rparr>) w None None
     = Inr (replicate fuel
              (SourceBundle w (self\<lparr>src_counts := Some T, src_chunk_size := Some (T div 10000)\<rparr>)
                 0 0),
            False)"
  using assms by (simp add: split_def split_loop_zero_chunk)

lemma split_from_10000_returns:
  assumes "10000 \<le> T" and "nat ((T + T div 10000 - 1) div (T div 10000)) < fuel"
  shows "split fuel (self\<lparr>src_counts := Some T, src_chunk_size := Some (T div 10000)\<rparr>) w None None
     = Inr (map (\<lambda>k. SourceBundle w
                        (self\<lparr>src_counts := Some T, src_chunk_size := Some (T div 10000)\<rparr>)
                        (int k * (T div 10000)) (int k * (T div 10000) + T div 10000))
              [0..<nat ((T + T div 10000 - 1) div (T div 10000))],
            True)"
proof -
  from assms(1) have c: "0 < T div 10000"
    by (simp add: pos_imp_zdiv_pos_iff)
  show ?thesis
    using split_loop_returns [OF c, of T 0 fuel w] assms(2)
    by (simp add: split_def)
qed

lemma bundles_reach_total:
  assumes "0 < c" and "0 \<le> T"
  shows "T \<le> int (nat ((T + c - 1) div c)) * c"
proof -
  have "(T + c - 1) mod c < c"
    using assms(1) by simp
  moreover have "(T + c - 1) div c * c + (T + c - 1) mod c = T + c - 1"
    by simp
  ultimately have "T \<le> (T + c - 1) div c * c"
    by linarith
  moreover have "0 \<le> (T + c - 1) div c"
    using assms by (simp add: pos_imp_zdiv_nonneg_iff)
  ultimately show ?thesis
    by simp
qed

text \<open>
  Claim C1. For every total \<open>T \<ge> 1\<close>, \<open>split\<close> is to terminate with a finite, gap-free
  sequence of bundles covering \<open>[0, T)\<close>, the chunk size \<open>T // 10000\<close> being clamped to
  at least 1. The code does not clamp: for \<open>T = 42\<close> the chunk size is 0, and however
  often the loop condition is evaluated, the generator has not returned and has yielded
  the zero-width bundle \<open>[0, 0)\<close> each time.
\<close>

theorem split_small_total_never_returns:
  "split fuel (self\<lparr>src_counts := Some 42, src_chunk_size := Some (42 div 10000)\<rparr>) w None None
     = Inr (replicate fuel
              (SourceBundle w (self\<lparr>src_counts := Some 42, src_chunk_size := Some (42 div 10000)\<rparr>)
                 0 0),
            False)"
  by (simp add: split_def split_loop_zero_chunk)

section \<open>The batch writer\<close>

text \<open>
  The writer passes the statement and the batch to \<open>record_loader\<close>, which takes the
  statement only: the call raises before anything reaches the driver.
\<close>

lemma flush_call_raises:
  "call_record_loader client [Val (PStr query), Batch batch] drv
     = (Inl (TypeError ''record_loader''), [])"
  by (simp add: call_record_loader_def bind_positional_def)

lemma example_database: "getitem example_config ''database'' = Inr (PStr ''shop'')"
  by (simp add: getitem_def example_config_def)

text \<open>Every flush of \<open>process\<close> ends this way, whatever the threshold and the rows.\<close>

lemma process_flush_raises:
  assumes "getitem (w_config self) ''database'' = Inr db"
    and "w_batch_size self \<le> int (length (w_values_batch self)) + 1"
  shows "\<exists>self'. process drv self element = (Some (TypeError ''record_loader''), self', [])
           \<and> w_values_batch self' = w_values_batch self @ [map snd element]"
  using assms by (simp add: process_def flush_call_raises Let_def)

text \<open>
  Claim C4. Feeding \<open>B\<close> rows to a writer with threshold \<open>B \<ge> 1\<close> is to trigger one flush
  that executes the statement with the \<open>B\<close> value tuples, commits and leaves the batch
  empty. With \<open>B = 1\<close>, the code raises \<open>TypeError\<close> on the first row: no call reaches the
  driver and the batch still holds the row.
\<close>

theorem flush_raises_type_error:
  "process drv example_writer [(''id'', PInt 1)]
     = (Some (TypeError ''record_loader''),
        example_writer\<lparr>w_query := Some ''INSERT INTO shop.users (id) VALUES (%s)'',
                        w_values_batch := [[PInt 1]]\<rparr>,
        [])"
  by (simp add: process_def example_writer_def example_database flush_call_raises Let_def)

text \<open>
  Claim C10. For every row whose columns are \<open>id\<close> and \<open>name\<close>, with the upsert flag set,
  the statement the writer generates contains
  \<open>ON DUPLICATE KEY UPDATE id = VALUES(id), name = VALUES(name)\<close>: one term per
  column, in order. The writer's configuration is one the client accepts.
\<close>

theorem upsert_statement_shape:
  assumes "map fst element = [''id'', ''name'']"
    and "w_do_upsert self"
    and "validate_config (w_config self) = Inr ()"
  shows "\<exists>db query. getitem (w_config self) ''database'' = Inr db
           \<and> w_query (fst (snd (process drv self element))) = Some query
           \<and> query = ''INSERT INTO '' @ format_val db @ ''.'' @ format_val (w_table self)
                @ '' (id, name) VALUES (%s,%s)''
                @ '' ON DUPLICATE KEY UPDATE id = VALUES(id), name = VALUES(name)'' @ '';''
           \<and> sublist ''ON DUPLICATE KEY UPDATE id = VALUES(id), name = VALUES(name)'' query"
proof -
  from assms(3) obtain db where db: "getitem (w_config self) ''database'' = Inr db"
    using validated_database by blast
  have len: "length element = 2"
    using assms(1) by (metis length_map length_Cons list.size(3) One_nat_def Suc_1)
  let ?q = "''INSERT INTO '' @ format_val db @ ''.'' @ format_val (w_table self)
                @ '' (id, name) VALUES (%s,%s)''
                @ '' ON DUPLICATE KEY UPDATE id = VALUES(id), name = VALUES(name)'' @ '';''"
  have q: "w_query (fst (snd (process drv self element))) = Some ?q"
    using assms(1,2) db len
    by (simp add: process_def Let_def split: prod.splits sum.splits)
  have "sublist ''ON DUPLICATE KEY UPDATE id = VALUES(id), name = VALUES(name)'' ?q"
    unfolding sublist_def
    by (rule exI [of _ "''INSERT INTO '' @ format_val db @ ''.'' @ format_val (w_table self)
                @ '' (id, name) VALUES (%s,%s) ''"], rule exI [of _ "'';''"]) simp
  with db q show ?thesis by blast
qed

lemma example_config_valid: "validate_config example_config = Inr ()"
  using example_keys by (simp add: validate_config_def)

theorem upsert_statement_shape_witness:
  "w_query (fst (snd (process failing_driver (example_writer\<lparr>w_do_upsert := True\<rparr>)
                        [(''id'', PInt 7), (''name'', PStr ''ann'')])))
     = Some ''INSERT INTO shop.users (id, name) VALUES (%s,%s) ON DUPLICATE KEY UPDATE id = VALUES(id), name = VALUES(name);''
   \<and> sublist ''ON DUPLICATE KEY UPDATE id = VALUES(id), name = VALUES(name)''
        ''INSERT INTO shop.users (id, name) VALUES (%s,%s) ON DUPLICATE KEY UPDATE id = VALUES(id), name = VALUES(name);''"
proof -
  have cols: "map fst [(''id'', PInt 7), (''name'', PStr ''ann'')] = [''id'', ''name'']"
    by simp
  have flag: "w_do_upsert (example_writer\<lparr>w_do_upsert := True\<rparr>)"
    by simp
  have valid: "validate_config (w_config (example_writer\<lparr>w_do_upsert := True\<rparr>)) = Inr ()"
    by (simp add: example_writer_def example_config_valid)
  have db: "getitem (w_config (example_writer\<lparr>w_do_upsert := True\<rparr>)) ''database''
              = Inr (PStr ''shop'')"
    by (simp add: example_writer_def example_database)
  have table: "w_table (example_writer\<lparr>w_do_upsert := True\<rparr>) = PStr ''users''"
    by (simp add: example_writer_def)
  show ?thesis
    using upsert_statement_shape [OF cols flag valid, of failing_driver] db table
    by auto
qed

text \<open>
  \<open>record_loader\<close> itself, called with the statement alone: when the execution raises a
  driver error, the rollback is the call after \<open>execute\<close>, and the client error is
  raised after it, if the rollback succeeds.
\<close>

lemma record_loader_execute_error:
  assumes "record_loader client q drv = (res, log)"
    and "Execute query \<in> set log"
    and "execute_result drv query = Inl e"
  shows "res = Inl (loader_handler query e drv)
         \<and> log = [Connect (config client), Cursor, Execute query, Rollback, Close]"
  using assms
  by (auto simp: record_loader_def split: sum.splits option.splits)

lemma valid_insert:
  "validate_query ''INSERT INTO shop.users (id) VALUES (%s)'' [INSERT_STATEMENT] = Inr ()"
  by code_simp

lemma loader_example:
  "call_record_loader example_client [Val (PStr ''INSERT INTO shop.users (id) VALUES (%s)'')]
     failing_driver
     = (Inl (MySQLClientError
          ''Failed to execute query: INSERT INTO shop.users (id) VALUES (%s), Raise exception: 1062 Duplicate entry''),
        [Connect example_config, Cursor, Execute ''INSERT INTO shop.users (id) VALUES (%s)'',
         Rollback, Close])"
  by (simp add: call_record_loader_def bind_positional_def record_loader_def valid_insert
      loader_handler_def failing_driver_def example_client_def)

text \<open>
  The writer never gets that far. Whatever the driver, the rows and the attributes,
  \<open>process\<close> and \<open>finish_bundle\<close> make no call to the driver, so none rolls back, and
  the error they raise is never the client error.
\<close>

lemma process_never_reaches_driver: "snd (snd (process drv self element)) = []"
  by (simp add: process_def flush_call_raises Let_def split: sum.splits)

lemma finish_never_reaches_driver: "snd (snd (finish_bundle drv self)) = []"
  by (simp add: finish_bundle_def flush_call_raises split: option.splits)

lemma process_never_client_error: "fst (process drv self element) \<noteq> Some (MySQLClientError m)"
  by (cases "getitem (w_config self) ''database''")
    (auto simp: process_def getitem_def flush_call_raises Let_def split: option.splits)

lemma finish_never_client_error: "fst (finish_bundle drv self) \<noteq> Some (MySQLClientError m)"
  by (simp add: finish_bundle_def flush_call_raises split: option.splits)

text \<open>
  Claim C5. In every flush of the writer in which the execution of the statement raises
  a driver error, the transaction is to be rolled back before the error is surfaced as
  a client error, the pending batch staying as it is. On a driver that rejects every
  statement, the flush of \<open>finish_bundle\<close> with the row \<open>[1]\<close> pending raises \<open>TypeError\<close>
  with no call to the driver: no execution, no rollback, no client error. The batch is
  kept.
\<close>

theorem failed_flush_never_rolls_back:
  "finish_bundle failing_driver
     (example_writer\<lparr>w_query := Some ''INSERT INTO shop.users (id) VALUES (%s)'',
                     w_values_batch := [[PInt 1]]\<rparr>)
     = (Some (TypeError ''record_loader''),
        example_writer\<lparr>w_query := Some ''INSERT INTO shop.users (id) VALUES (%s)'',
                        w_values_batch := [[PInt 1]]\<rparr>,
        [])"
  by (simp add: finish_bundle_def flush_call_raises)

section \<open>The range-tracked reader\<close>

subsection \<open>One step of each loop\<close>

lemma read_while_Nil: "read_while ([], err) = (case err of None \<Rightarrow> [] | Some e \<Rightarrow> [Raise e])"
  by (subst read_while.simps) (simp split: option.splits)

lemma read_while_Cons:
  "read_while (r # rs, err) = (if dict_truthy r then Yield r # read_while (rs, err) else [])"
  by (subst read_while.simps) simp

lemma read_for_Nil:
  "read_for claim i stop ([], err) = (case err of None \<Rightarrow> [] | Some e \<Rightarrow> [Raise e])"
  by (subst read_for.simps) (simp add: read_while_Nil split: option.splits)

lemma read_for_Cons:
  "read_for claim i stop (r # rs, err) =
     (if i < stop
      then (if \<not> dict_truthy r then []
            else if \<not> claim i then [TryClaim i False]
            else TryClaim i True # Yield r # read_for claim (i + 1) stop (rs, err))
      else read_while (r # rs, err))"
  by (subst read_for.simps) simp

subsection \<open>The closed form\<close>

lemma read_while_spec:
  "read_while (rs, err) =
     map Yield (takeWhile dict_truthy rs) @
     (if length (takeWhile dict_truthy rs) = length rs
      then (case err of None \<Rightarrow> [] | Some e \<Rightarrow> [Raise e]) else [])"
  by (induction rs) (simp_all add: read_while_Nil read_while_Cons)

lemma granted_0: "granted claim start 0 = 0"
  by (simp add: granted_def)

lemma granted_Suc:
  "granted claim start (Suc m) = (if claim start then Suc (granted claim (start + 1) m) else 0)"
proof -
  have "[0..<Suc m] = 0 # map Suc [0..<m]"
    by (simp add: upt_conv_Cons map_Suc_upt del: upt_Suc)
  then show ?thesis
    by (simp add: granted_def takeWhile_map comp_def ac_simps del: upt_Suc)
qed

lemma claimed_part_0: "claimed_part start 0 rs = []"
  by (simp add: claimed_part_def)

lemma claimed_part_Suc:
  "claimed_part start (Suc k) (r # rs)
     = TryClaim start True # Yield r # claimed_part (start + 1) k rs"
proof -
  have "[0..<Suc k] = 0 # map Suc [0..<k]"
    by (simp add: upt_conv_Cons map_Suc_upt del: upt_Suc)
  then show ?thesis
    by (simp add: claimed_part_def comp_def ac_simps del: upt_Suc)
qed

lemma read_for_spec: "read_for claim start stop (rs, err) = read_spec claim start stop rs err"
proof (induction rs arbitrary: start)
  case Nil
  show ?case
    by (simp add: read_for_Nil read_spec_def granted_0 claimed_part_0)
next
  case (Cons r rs)
  show ?case
  proof (cases "start < stop")
    case False
    then show ?thesis
      by (simp add: read_for_Cons read_while_spec read_spec_def granted_0 claimed_part_0
          del: takeWhile.simps)
  next
    case True
    then have len: "nat (stop - start) = Suc (nat (stop - (start + 1)))"
      by simp
    show ?thesis
    proof (cases "dict_truthy r")
      case False
      with True show ?thesis
        by (simp add: read_for_Cons read_spec_def granted_0 claimed_part_0)
    next
      case live: True
      show ?thesis
      proof (cases "claim start")
        case False
        with True live show ?thesis
          by (simp add: read_for_Cons read_spec_def len granted_Suc claimed_part_0)
      next
        case ok: True
        have "read_for claim start stop (r # rs, err)
                = TryClaim start True # Yield r # read_spec claim (start + 1) stop rs err"
          using True live ok by (simp add: read_for_Cons Cons.IH)
        also have "\<dots> = read_spec claim start stop (r # rs) err"
          using live ok
          by (simp add: read_spec_def len granted_Suc claimed_part_Suc Let_def)
        finally show ?thesis .
      qed
    qed
  qed
qed

subsection \<open>Rows emitted without a claim\<close>

lemma example_generator:
  "record_generator example_client ''SELECT * FROM t'' (select_driver rs) = (rs, None)"
  by (simp add: record_generator_def valid_select select_driver_def)

lemma read_example:
  "read example_source \<lparr>tracker_start = a, tracker_stop = b, try_claim = c\<rparr> (select_driver rs)
     = read_for c a b (rs, None)"
  by (simp add: read_def example_source_def example_generator)

text \<open>
  Claim C3, as stated, fails. A tracker of the range \<open>[0, 1)\<close> grants the claim of
  position 0; the query has three rows. \<open>read\<close> emits all three: the second and the
  third after the range is exhausted, with no claim.
\<close>

theorem read_emits_unclaimed_rows:
  "\<not> emits_only_claimed 0 1
       (read example_source \<lparr>tracker_start = 0, tracker_stop = 1, try_claim = (\<lambda>i. i < 1)\<rparr>
          (select_driver example_rows))"
  by (simp add: read_example read_for_Cons read_for_Nil read_while_Cons read_while_Nil
      example_rows_def dict_truthy_def)

text \<open>
  Claim C3, amended. For every range tracker with range \<open>[start, stop)\<close> and every row
  sequence, \<open>read\<close> claims the positions \<open>start\<close>, \<open>start + 1\<close>, \<dots> in order, each before
  emitting the corresponding row, and while positions of the range remain it emits rows
  only at claimed positions: when a claim is refused, or the row sequence is exhausted
  before the range is, it stops immediately and emits no further rows. When every
  position of the range has been claimed and rows remain, it goes on and emits all the
  remaining rows without claiming a position. An empty row ends the sequence as its
  exhaustion does.
\<close>

theorem read_claims_range_then_drains:
  assumes "src_client self = Some client"
    and "src_query self = Val (PStr query)"
    and "record_generator client query drv = (rs, err)"
  shows "read self range_tracker drv
           = read_spec (try_claim range_tracker) (tracker_start range_tracker)
               (tracker_stop range_tracker) rs err"
  using assms by (simp add: read_def read_for_spec)

lemma read_spec_example:
  "read_spec (\<lambda>i. i < 1) 0 1 example_rows None
     = [TryClaim 0 True, Yield [(''id'', PInt 1)], Yield [(''id'', PInt 2)],
        Yield [(''id'', PInt 3)]]"
  by code_simp

theorem read_claims_range_then_drains_witness:
  "read example_source \<lparr>tracker_start = 0, tracker_stop = 1, try_claim = (\<lambda>i. i < 1)\<rparr>
     (select_driver example_rows)
     = [TryClaim 0 True, Yield [(''id'', PInt 1)], Yield [(''id'', PInt 2)],
        Yield [(''id'', PInt 3)]]"
proof -
  have c: "src_client example_source = Some example_client"
    by (simp add: example_source_def)
  have q: "src_query example_source = Val (PStr ''SELECT * FROM t'')"
    by (simp add: example_source_def)
  show ?thesis
    using read_claims_range_then_drains [OF c q example_generator [of example_rows],
        of "\<lparr>tracker_start = 0, tracker_stop = 1, try_claim = (\<lambda>i. i < 1)\<rparr>"]
    by (simp add: read_spec_example)
qed

subsection \<open>A refused claim ends the read\<close>

lemma read_while_no_claim: "TryClaim j b \<notin> set (read_while (rs, err))"
  by (cases err; cases "length (takeWhile dict_truthy rs) = length rs")
    (auto simp: read_while_spec)

lemma read_for_refused_last:
  "read_for claim i stop (rs, err) = pre @ TryClaim j False # post \<Longrightarrow> post = []"
proof (induction rs arbitrary: i pre)
  case Nil
  then show ?case
    by (auto simp: read_for_Nil Cons_eq_append_conv split: option.splits)
next
  case (Cons r rs)
  show ?case
  proof (cases "i < stop")
    case False
    with Cons.prems have "TryClaim j False \<in> set (read_while (r # rs, err))"
      by (simp add: read_for_Cons)
    then show ?thesis
      by (simp add: read_while_no_claim)
  next
    case True
    show ?thesis
    proof (cases "dict_truthy r \<and> claim i")
      case False
      with True Cons.prems show ?thesis
        by (auto simp: read_for_Cons Cons_eq_append_conv split: if_splits)
    next
      case ok: True
      with True Cons.prems
      have "TryClaim i True # Yield r # read_for claim (i + 1) stop (rs, err)
              = pre @ TryClaim j False # post"
        by (simp add: read_for_Cons)
      then obtain pre' where
        "read_for claim (i + 1) stop (rs, err) = pre' @ TryClaim j False # post"
        by (auto simp: Cons_eq_append_conv)
      then show ?thesis
        by (rule Cons.IH)
    qed
  qed
qed

text \<open>
  Claim C7. For every range tracker and every position \<open>i\<close>, once \<open>try_claim(i)\<close> has
  returned false within one invocation of \<open>read\<close>, that invocation emits no further
  row: the refused claim is the last thing it does.
\<close>

theorem refused_claim_ends_read:
  "read self range_tracker drv = pre @ TryClaim i False # post \<Longrightarrow> post = []"
proof (cases "src_client self")
  case None
  assume "read self range_tracker drv = pre @ TryClaim i False # post"
  with None show ?thesis
    by (auto simp: read_def Cons_eq_append_conv)
next
  case (Some client)
  assume "read self range_tracker drv = pre @ TryClaim i False # post"
  with Some obtain g where
    "read_for (try_claim range_tracker) (tracker_start range_tracker)
       (tracker_stop range_tracker) g
       = pre @ TryClaim i False # post"
    by (simp add: read_def Let_def)
  then show ?thesis
    by (cases g) (auto dest: read_for_refused_last)
qed

text \<open>
  A tracker of the range \<open>[0, 3)\<close> that has been shrunk to \<open>[0, 1)\<close>: the claim of
  position 1 is refused, and the second and third rows are not emitted.
\<close>

lemma read_refused_example:
  "read example_source \<lparr>tracker_start = 0, tracker_stop = 3, try_claim = (\<lambda>i. i < 1)\<rparr>
     (select_driver example_rows)
     = [TryClaim 0 True, Yield [(''id'', PInt 1)]] @ TryClaim 1 False # []"
  by (simp add: read_example read_for_Cons example_rows_def dict_truthy_def)

theorem refused_claim_ends_read_witness:
  "read example_source \<lparr>tracker_start = 0, tracker_stop = 3, try_claim = (\<lambda>i. i < 1)\<rparr>
     (select_driver example_rows)
     = [TryClaim 0 True, Yield [(''id'', PInt 1)]] @ TryClaim 1 False # []
   \<and> ([] :: event list) = []"
  using refused_claim_ends_read [OF read_refused_example] read_refused_example by simp

end
